theory Spec2Isabelle
  imports Main "HOL-Library.Sublist"
begin

section \<open>Values, errors and the upstream service\<close>

text \<open>
  The flows of TryFit are asynchronous TypeScript functions that call a hosted image
  model through \<^verbatim>\<open>ai.generate\<close>. The embedding makes the effects explicit:
  a flow returns its completion (resolved value or thrown value) together with the list
  of upstream calls and timer waits it performed, in order. Console logging is left out.
  An upstream call is assumed to settle (fulfil or reject); the upstream is an arbitrary
  function of the number of calls already made and of the request.
\<close>

datatype js_value = JUndefined | JNull | JBool bool | JNum int | JStr string

text \<open>
  A thrown value is either an instance of \<^verbatim>\<open>Error\<close> with its message, or any other
  JavaScript value (JavaScript allows throwing anything, also \<^verbatim>\<open>undefined\<close>).
\<close>

datatype thrown = Error (message: string) | NonError js_value

datatype part = media_part string | text_part string

datatype prompt = prompt_text string | prompt_parts "part list"

record request =
  model :: string
  prompt :: prompt
  responseModalities :: "string list"

record media =
  url :: string

datatype event = Generate request | Wait nat

type_synonym upstream = "nat \<Rightarrow> request \<Rightarrow> thrown + media option"

datatype 'a completion = Normal | Continue | Return 'a | Throw thrown

record loop_state =
  lastError :: thrown
  trace :: "event list"

fun is_Generate :: "event \<Rightarrow> bool" where
  "is_Generate (Generate r) = True"
| "is_Generate (Wait ms) = False"

definition calls :: "event list \<Rightarrow> nat" where
  "calls tr = length (filter is_Generate tr)"

definition waits :: "event list \<Rightarrow> nat list" where
  "waits tr = concat (map (\<lambda>e. case e of Wait ms \<Rightarrow> [ms] | Generate r \<Rightarrow> []) tr)"

text \<open>\<^verbatim>\<open>String.prototype.includes\<close>: the pattern occurs as a contiguous substring.\<close>

fun includes_str :: "string \<Rightarrow> string \<Rightarrow> bool" where
  "includes_str [] pat = (pat = [])"
| "includes_str (c # cs) pat = (prefix pat (c # cs) \<or> includes_str cs pat)"

text \<open>
  The retry test of both flows:
  \<^verbatim>\<open>error instanceof Error && error.message.includes('503')\<close>.
\<close>

fun is_503 :: "thrown \<Rightarrow> bool" where
  "is_503 (Error m) = includes_str m ''503''"
| "is_503 (NonError v) = False"

definition maxRetries :: nat where
  "maxRetries = 3"

text \<open>\<^verbatim>\<open>x || ''\<close> on an optional string: absent and empty both give the empty string.\<close>

fun or_empty :: "string option \<Rightarrow> string" where
  "or_empty None = ''''"
| "or_empty (Some s) = (if s = '''' then '''' else s)"

section \<open>Schema validation\<close>

text \<open>
  A flow defined with \<^verbatim>\<open>ai.defineFlow({inputSchema: ...}, fn)\<close> parses its argument
  against the schema before \<^verbatim>\<open>fn\<close> runs. \<^verbatim>\<open>z.string()\<close> accepts every string value,
  the empty one included (the schemas of the flows carry no \<^verbatim>\<open>.min(1)\<close>);
  \<^verbatim>\<open>z.enum([...])\<close> accepts exactly the listed strings.
\<close>

fun z_string :: "js_value \<Rightarrow> string option" where
  "z_string (JStr s) = Some s"
| "z_string v = None"

datatype ViewAngle = Front | Side | Back

fun z_enum_viewAngle :: "js_value \<Rightarrow> ViewAngle option" where
  "z_enum_viewAngle (JStr s) =
     (if s = ''front'' then Some Front
      else if s = ''side'' then Some Side
      else if s = ''back'' then Some Back
      else None)"
| "z_enum_viewAngle v = None"

fun viewAngle_str :: "ViewAngle \<Rightarrow> string" where
  "viewAngle_str Front = ''front''"
| "viewAngle_str Side = ''side''"
| "viewAngle_str Back = ''back''"

section \<open>Single-view composite flow\<close>

record raw_SingleViewCompositeInput =
  raw_clothingImageUri :: js_value
  raw_modelImageUri :: js_value
  raw_clothingDescription :: js_value
  raw_modelDescription :: js_value
  raw_viewAngle :: js_value

record SingleViewCompositeInput =
  clothingImageUri :: string
  modelImageUri :: string
  clothingDescription :: string
  modelDescription :: string
  viewAngle :: ViewAngle

record SingleViewCompositeOutput =
  compositeImage :: string

definition SingleViewCompositeInputSchema ::
    "raw_SingleViewCompositeInput \<Rightarrow> SingleViewCompositeInput option" where
  "SingleViewCompositeInputSchema raw =
     (case z_string (raw_clothingImageUri raw) of None \<Rightarrow> None | Some c \<Rightarrow>
      case z_string (raw_modelImageUri raw) of None \<Rightarrow> None | Some m \<Rightarrow>
      case z_string (raw_clothingDescription raw) of None \<Rightarrow> None | Some cd \<Rightarrow>
      case z_string (raw_modelDescription raw) of None \<Rightarrow> None | Some md \<Rightarrow>
      case z_enum_viewAngle (raw_viewAngle raw) of None \<Rightarrow> None | Some va \<Rightarrow>
        Some \<lparr>clothingImageUri = c, modelImageUri = m, clothingDescription = cd,
              modelDescription = md, viewAngle = va\<rparr>)"

text \<open>The error a flow rejects with when its input does not parse (an \<^verbatim>\<open>Error\<close>).\<close>

definition schema_error :: thrown where
  "schema_error = Error ''INVALID_ARGUMENT: Schema validation failed''"

fun viewAngleInstructions :: "ViewAngle \<Rightarrow> string" where
  "viewAngleInstructions Front = ''Show the model from the front angle, facing forward''"
| "viewAngleInstructions Side =
     ''Show the model from a side profile angle (90 degrees), showing the side silhouette''"
| "viewAngleInstructions Back =
     ''Show the model from behind (180 degrees), showing the back of the outfit''"

definition singleView_text :: "SingleViewCompositeInput \<Rightarrow> string" where
  "singleView_text input =
     ''Composite the clothing item from the first image onto the AI model in the second image from a ''
     @ viewAngle_str (viewAngle input) @ '' view perspective. ''
     @ viewAngleInstructions (viewAngle input)
     @ ''.\<newline>\<newline>Requirements:\<newline>''
     @ ''- Ensure the clothing fits naturally on the model from the specified angle\<newline>''
     @ ''- Maintain realistic lighting and shadows  \<newline>''
     @ ''- Preserve the clothing's original colors and textures\<newline>''
     @ ''- Create a professional fashion photography look\<newline>''
     @ ''- Show how the garment drapes and fits from this specific perspective\<newline>\<newline>''
     @ ''Model: '' @ modelDescription input
     @ ''\<newline>Clothing: '' @ clothingDescription input
     @ ''\<newline>\<newline>Generate a high-quality '' @ viewAngle_str (viewAngle input)
     @ '' view composite.''"

definition singleView_request :: "SingleViewCompositeInput \<Rightarrow> request" where
  "singleView_request input =
     \<lparr>model = ''googleai/gemini-2.0-flash-preview-image-generation'',
      prompt = prompt_parts
        [media_part (clothingImageUri input),
         media_part (modelImageUri input),
         text_part (singleView_text input)],
      responseModalities = [''TEXT'', ''IMAGE'']\<rparr>"

text \<open>
  The \<^verbatim>\<open>try\<close> block of the loop of \<^verbatim>\<open>singleViewCompositeFlow\<close>, at the upstream
  call with index \<open>n\<close>: a rejection of the call is thrown, an answer is returned as
  \<^verbatim>\<open>{compositeImage: media?.url || ''}\<close>.
\<close>

definition singleView_try ::
    "upstream \<Rightarrow> SingleViewCompositeInput \<Rightarrow> nat
      \<Rightarrow> thrown + SingleViewCompositeOutput" where
  "singleView_try up input n =
     (case up n (singleView_request input) of
        Inr media \<Rightarrow> Inr \<lparr>compositeImage = or_empty (map_option url media)\<rparr>
      | Inl error \<Rightarrow> Inl error)"

text \<open>
  One iteration of the \<^verbatim>\<open>for\<close> loop: the \<^verbatim>\<open>try\<close> block calls the upstream and
  returns, the \<^verbatim>\<open>catch\<close> block records the error and either waits 3000 ms and
  continues, or rethrows.
\<close>

definition singleView_attempt ::
    "upstream \<Rightarrow> SingleViewCompositeInput \<Rightarrow> nat \<Rightarrow> loop_state
      \<Rightarrow> SingleViewCompositeOutput completion \<times> loop_state" where
  "singleView_attempt up input attempt st =
     (let st1 = st\<lparr>trace := trace st @ [Generate (singleView_request input)]\<rparr> in
      case singleView_try up input (calls (trace st)) of
        Inr result \<Rightarrow> (Return result, st1)
      | Inl error \<Rightarrow>
          (let st2 = st1\<lparr>lastError := error\<rparr> in
           if is_503 error \<and> attempt < maxRetries
           then (Continue, st2\<lparr>trace := trace st2 @ [Wait 3000]\<rparr>)
           else (Throw error, st2)))"

function singleView_loop ::
    "upstream \<Rightarrow> SingleViewCompositeInput \<Rightarrow> nat \<Rightarrow> loop_state
      \<Rightarrow> SingleViewCompositeOutput completion \<times> loop_state" where
  "singleView_loop up input attempt st =
     (if attempt \<le> maxRetries
      then (case singleView_attempt up input attempt st of
              (Continue, st') \<Rightarrow> singleView_loop up input (attempt + 1) st'
            | (c, st') \<Rightarrow> (c, st'))
      else (Normal, st))"
  by pat_completeness auto
termination
  by (relation "measure (\<lambda>(up, input, attempt, st). maxRetries + 1 - attempt)") auto

declare singleView_loop.simps [simp del]

text \<open>
  The body of the flow: the loop starts at attempt 1 with \<^verbatim>\<open>lastError\<close> undefined;
  \<^verbatim>\<open>throw lastError\<close> follows the loop; the outer \<^verbatim>\<open>catch\<close> logs and rethrows.
\<close>

definition singleViewCompositeFlow_body ::
    "upstream \<Rightarrow> SingleViewCompositeInput
      \<Rightarrow> (thrown + SingleViewCompositeOutput) \<times> event list" where
  "singleViewCompositeFlow_body up input =
     (case singleView_loop up input 1 \<lparr>lastError = NonError JUndefined, trace = []\<rparr> of
        (Return v, st) \<Rightarrow> (Inr v, trace st)
      | (Throw e, st) \<Rightarrow> (Inl e, trace st)
      | (c, st) \<Rightarrow> (Inl (lastError st), trace st))"

definition singleViewCompositeFlow ::
    "upstream \<Rightarrow> raw_SingleViewCompositeInput
      \<Rightarrow> (thrown + SingleViewCompositeOutput) \<times> event list" where
  "singleViewCompositeFlow up raw =
     (case SingleViewCompositeInputSchema raw of
        None \<Rightarrow> (Inl schema_error, [])
      | Some input \<Rightarrow> singleViewCompositeFlow_body up input)"

definition generateSingleViewComposite ::
    "upstream \<Rightarrow> raw_SingleViewCompositeInput
      \<Rightarrow> (thrown + SingleViewCompositeOutput) \<times> event list" where
  "generateSingleViewComposite up raw = singleViewCompositeFlow up raw"

section \<open>AI model generation flow\<close>

record raw_GenerateAiModelInput =
  raw_description :: js_value

record GenerateAiModelInput =
  description :: string

record GenerateAiModelOutput =
  modelImage :: string

definition GenerateAiModelInputSchema ::
    "raw_GenerateAiModelInput \<Rightarrow> GenerateAiModelInput option" where
  "GenerateAiModelInputSchema raw =
     (case z_string (raw_description raw) of None \<Rightarrow> None
      | Some d \<Rightarrow> Some \<lparr>description = d\<rparr>)"

definition generateAiModel_request :: "GenerateAiModelInput \<Rightarrow> request" where
  "generateAiModel_request input =
     \<lparr>model = ''googleai/gemini-2.0-flash-preview-image-generation'',
      prompt = prompt_text (description input),
      responseModalities = [''TEXT'', ''IMAGE'']\<rparr>"

text \<open>
  \<^verbatim>\<open>media!.url\<close>: the non-null assertion is erased at run time, so reading
  \<^verbatim>\<open>url\<close> of an absent media throws a \<^verbatim>\<open>TypeError\<close> (an \<^verbatim>\<open>Error\<close>), here with
  the message of V8.
\<close>

definition media_TypeError :: thrown where
  "media_TypeError = Error ''Cannot read properties of null (reading 'url')''"

text \<open>
  The \<^verbatim>\<open>try\<close> block of the loop of \<^verbatim>\<open>generateAiModelFlow\<close>, at the upstream call
  with index \<open>n\<close>. The \<^verbatim>\<open>return\<close> with \<^verbatim>\<open>media!.url\<close> stands inside the
  \<^verbatim>\<open>try\<close> block, so its \<^verbatim>\<open>TypeError\<close> is handled by the same \<^verbatim>\<open>catch\<close>
  block as a rejection of the upstream call.
\<close>

definition generateAiModel_try ::
    "upstream \<Rightarrow> GenerateAiModelInput \<Rightarrow> nat \<Rightarrow> thrown + GenerateAiModelOutput" where
  "generateAiModel_try up input n =
     (case up n (generateAiModel_request input) of
        Inr (Some media) \<Rightarrow> Inr \<lparr>modelImage = url media\<rparr>
      | Inr None \<Rightarrow> Inl media_TypeError
      | Inl error \<Rightarrow> Inl error)"

text \<open>One iteration of the loop of \<^verbatim>\<open>generateAiModelFlow\<close>.\<close>

definition generateAiModel_attempt ::
    "upstream \<Rightarrow> GenerateAiModelInput \<Rightarrow> nat \<Rightarrow> loop_state
      \<Rightarrow> GenerateAiModelOutput completion \<times> loop_state" where
  "generateAiModel_attempt up input attempt st =
     (let st1 = st\<lparr>trace := trace st @ [Generate (generateAiModel_request input)]\<rparr> in
      case generateAiModel_try up input (calls (trace st)) of
        Inr result \<Rightarrow> (Return result, st1)
      | Inl error \<Rightarrow>
          (let st2 = st1\<lparr>lastError := error\<rparr> in
           if is_503 error \<and> attempt < maxRetries
           then (Continue, st2\<lparr>trace := trace st2 @ [Wait 3000]\<rparr>)
           else (Throw error, st2)))"

function generateAiModel_loop ::
    "upstream \<Rightarrow> GenerateAiModelInput \<Rightarrow> nat \<Rightarrow> loop_state
      \<Rightarrow> GenerateAiModelOutput completion \<times> loop_state" where
  "generateAiModel_loop up input attempt st =
     (if attempt \<le> maxRetries
      then (case generateAiModel_attempt up input attempt st of
              (Continue, st') \<Rightarrow> generateAiModel_loop up input (attempt + 1) st'
            | (c, st') \<Rightarrow> (c, st'))
      else (Normal, st))"
  by pat_completeness auto
termination
  by (relation "measure (\<lambda>(up, input, attempt, st). maxRetries + 1 - attempt)") auto

declare generateAiModel_loop.simps [simp del]

definition generateAiModelFlow_body ::
    "upstream \<Rightarrow> GenerateAiModelInput
      \<Rightarrow> (thrown + GenerateAiModelOutput) \<times> event list" where
  "generateAiModelFlow_body up input =
     (case generateAiModel_loop up input 1 \<lparr>lastError = NonError JUndefined, trace = []\<rparr> of
        (Return v, st) \<Rightarrow> (Inr v, trace st)
      | (Throw e, st) \<Rightarrow> (Inl e, trace st)
      | (c, st) \<Rightarrow> (Inl (lastError st), trace st))"

definition generateAiModelFlow ::
    "upstream \<Rightarrow> raw_GenerateAiModelInput
      \<Rightarrow> (thrown + GenerateAiModelOutput) \<times> event list" where
  "generateAiModelFlow up raw =
     (case GenerateAiModelInputSchema raw of
        None \<Rightarrow> (Inl schema_error, [])
      | Some input \<Rightarrow> generateAiModelFlow_body up input)"

definition generateAiModel ::
    "upstream \<Rightarrow> raw_GenerateAiModelInput
      \<Rightarrow> (thrown + GenerateAiModelOutput) \<times> event list" where
  "generateAiModel up raw = generateAiModelFlow up raw"

section \<open>The page handler\<close>

record AnalyzeClothingImageOutput =
  garmentType :: string
  clothingFeatures :: "string list"
  suggestedGender :: string

record ModelFormValues =
  gender :: string
  pose :: string
  bodyType :: string
  skinTone :: string
  form_viewAngle :: string

record LoadingStates =
  analyzing :: bool
  generatingModel :: bool
  compositing :: bool

record toast =
  variant :: string
  title :: string
  toast_description :: string

text \<open>
  The React state of \<^verbatim>\<open>TryFitPage\<close> that the handler reads and writes, the values of
  the model form, and the toasts shown so far.
\<close>

record page_state =
  clothingImage :: "string option"
  clothingAnalysis :: "AnalyzeClothingImageOutput option"
  modelImage_state :: "string option"
  compositeImage_state :: "string option"
  loadingStates :: LoadingStates
  modelForm :: ModelFormValues
  toasts :: "toast list"

text \<open>Truthiness of a \<^verbatim>\<open>string | null\<close>: \<^verbatim>\<open>null\<close> and the empty string are falsy.\<close>

fun truthy :: "string option \<Rightarrow> bool" where
  "truthy None = False"
| "truthy (Some s) = (s \<noteq> [])"

text \<open>\<^verbatim>\<open>Array.prototype.join\<close> on an array of strings.\<close>

fun join :: "string \<Rightarrow> string list \<Rightarrow> string" where
  "join sep [] = []"
| "join sep [x] = x"
| "join sep (x # y # ys) = x @ sep @ join sep (y # ys)"

definition missing_images_toast :: toast where
  "missing_images_toast =
     \<lparr>variant = ''destructive'', title = ''Missing Images'',
      toast_description = ''Please upload a clothing item and generate a model first.''\<rparr>"

definition try_on_failed_toast :: toast where
  "try_on_failed_toast =
     \<lparr>variant = ''destructive'', title = ''Virtual Try-On Failed'',
      toast_description = ''Could not create the composite image. Please try again.''\<rparr>"

text \<open>
  The handler returns the new page state, the list of invocations of the composite flow
  it made (each is a request to the server), and the upstream calls and waits of those
  invocations.

  The part of \<^verbatim>\<open>handleCreateTryOn\<close> after the guard, with the three values the guard
  has found present: the \<^verbatim>\<open>try\<close> block builds the two descriptions and awaits the
  flow, an empty result is turned into a thrown \<^verbatim>\<open>Error\<close>, the \<^verbatim>\<open>catch\<close> block
  shows the failure toast, and \<^verbatim>\<open>finally\<close> clears the compositing flag.
\<close>

definition handleCreateTryOn_run ::
    "upstream \<Rightarrow> page_state \<Rightarrow> string \<Rightarrow> string \<Rightarrow> AnalyzeClothingImageOutput
      \<Rightarrow> page_state \<times> raw_SingleViewCompositeInput list \<times> event list" where
  "handleCreateTryOn_run up s ci mi ca =
     (let s1 = s\<lparr>loadingStates := (loadingStates s)\<lparr>compositing := True\<rparr>,
                 compositeImage_state := None\<rparr>;
          modelValues = modelForm s;
          modelDescription' = ''A '' @ gender modelValues @ '' model with ''
            @ skinTone modelValues @ '' and an '' @ bodyType modelValues
            @ ''. The model is '' @ pose modelValues @ ''.'';
          clothingDescription' = garmentType ca @ '' with features: ''
            @ join '', '' (clothingFeatures ca);
          flow_input =
            \<lparr>raw_clothingImageUri = JStr ci,
             raw_modelImageUri = JStr mi,
             raw_clothingDescription = JStr clothingDescription',
             raw_modelDescription = JStr modelDescription',
             raw_viewAngle = JStr (form_viewAngle modelValues)\<rparr>;
          (result, tr) = generateSingleViewComposite up flow_input;
          s2 = (case result of
                  Inr out \<Rightarrow>
                    if compositeImage out \<noteq> []
                    then s1\<lparr>compositeImage_state := Some (compositeImage out)\<rparr>
                    else s1\<lparr>toasts := toasts s1 @ [try_on_failed_toast]\<rparr>
                | Inl error \<Rightarrow> s1\<lparr>toasts := toasts s1 @ [try_on_failed_toast]\<rparr>)
      in (s2\<lparr>loadingStates := (loadingStates s2)\<lparr>compositing := False\<rparr>\<rparr>,
          [flow_input], tr))"

text \<open>
  \<^verbatim>\<open>handleCreateTryOn\<close>: the guard
  \<^verbatim>\<open>!clothingImage || !modelImage || !clothingAnalysis\<close> shows the toast and returns.
\<close>

definition handleCreateTryOn ::
    "upstream \<Rightarrow> page_state
      \<Rightarrow> page_state \<times> raw_SingleViewCompositeInput list \<times> event list" where
  "handleCreateTryOn up s =
     (if \<not> truthy (clothingImage s) \<or> \<not> truthy (modelImage_state s)
         \<or> clothingAnalysis s = None
      then (s\<lparr>toasts := toasts s @ [missing_images_toast]\<rparr>, [], [])
      else (case (clothingImage s, modelImage_state s, clothingAnalysis s) of
              (Some ci, Some mi, Some ca) \<Rightarrow> handleCreateTryOn_run up s ci mi ca
            | _ \<Rightarrow> (s\<lparr>toasts := toasts s @ [missing_images_toast]\<rparr>, [], [])))"

section \<open>Multi-angle composite flow\<close>

record raw_MultiAngleCompositeInput =
  raw_ma_clothingImageUri :: js_value
  raw_ma_modelImageUri :: js_value
  raw_ma_clothingDescription :: js_value
  raw_ma_modelDescription :: js_value

record MultiAngleCompositeInput =
  ma_clothingImageUri :: string
  ma_modelImageUri :: string
  ma_clothingDescription :: string
  ma_modelDescription :: string

record MultiAngleCompositeOutput =
  frontView :: string
  sideView :: string
  backView :: string

definition MultiAngleCompositeInputSchema ::
    "raw_MultiAngleCompositeInput \<Rightarrow> MultiAngleCompositeInput option" where
  "MultiAngleCompositeInputSchema raw =
     (case z_string (raw_ma_clothingImageUri raw) of None \<Rightarrow> None | Some c \<Rightarrow>
      case z_string (raw_ma_modelImageUri raw) of None \<Rightarrow> None | Some m \<Rightarrow>
      case z_string (raw_ma_clothingDescription raw) of None \<Rightarrow> None | Some cd \<Rightarrow>
      case z_string (raw_ma_modelDescription raw) of None \<Rightarrow> None | Some md \<Rightarrow>
        Some \<lparr>ma_clothingImageUri = c, ma_modelImageUri = m,
              ma_clothingDescription = cd, ma_modelDescription = md\<rparr>)"

text \<open>
  A settled promise: the time at which it settles, and its rejection reason or its value.
  The three prompts answer with the view field of their output, absent when the response
  carries no output (\<^verbatim>\<open>result.output?.frontView\<close>).
\<close>

type_synonym 'a settled = "nat \<times> (thrown + 'a)"

type_synonym prompt_upstream =
  "ViewAngle \<Rightarrow> MultiAngleCompositeInput \<Rightarrow> string option settled"

text \<open>
  \<^verbatim>\<open>Promise.all\<close>: rejects with the reason of the input promise that rejects first
  (of two at the same time, the earlier in the array); fulfils with the values in array
  order when every input promise fulfils.
\<close>

fun first_rejection :: "'a settled list \<Rightarrow> (nat \<times> thrown) option" where
  "first_rejection [] = None"
| "first_rejection ((t, Inr v) # ps) = first_rejection ps"
| "first_rejection ((t, Inl e) # ps) =
     (case first_rejection ps of
        None \<Rightarrow> Some (t, e)
      | Some (t', e') \<Rightarrow> if t' < t then Some (t', e') else Some (t, e))"

fun fulfilled_values :: "'a settled list \<Rightarrow> 'a list" where
  "fulfilled_values [] = []"
| "fulfilled_values ((t, Inr v) # ps) = v # fulfilled_values ps"
| "fulfilled_values ((t, Inl e) # ps) = fulfilled_values ps"

definition Promise_all :: "'a settled list \<Rightarrow> thrown + 'a list" where
  "Promise_all ps =
     (case first_rejection ps of
        Some (t, e) \<Rightarrow> Inl e
      | None \<Rightarrow> Inr (fulfilled_values ps))"

text \<open>
  The body of \<^verbatim>\<open>multiAngleCompositeFlow\<close>. The three prompt calls are made while the
  array literal is built, before anything is awaited, so all three are issued whatever
  the others answer; the second component lists them in order. The last case (an array
  of another length) cannot arise from a three-element \<^verbatim>\<open>Promise.all\<close>.
\<close>

definition multiAngleCompositeFlow_body ::
    "prompt_upstream \<Rightarrow> MultiAngleCompositeInput
      \<Rightarrow> (thrown + MultiAngleCompositeOutput) \<times> ViewAngle list" where
  "multiAngleCompositeFlow_body pu input =
     (case Promise_all [pu Front input, pu Side input, pu Back input] of
        Inl e \<Rightarrow> (Inl e, [Front, Side, Back])
      | Inr [frontResult, sideResult, backResult] \<Rightarrow>
          (Inr \<lparr>frontView = or_empty frontResult,
                sideView = or_empty sideResult,
                backView = or_empty backResult\<rparr>, [Front, Side, Back])
      | Inr _ \<Rightarrow> (Inl (NonError JUndefined), [Front, Side, Back]))"

definition multiAngleCompositeFlow ::
    "prompt_upstream \<Rightarrow> raw_MultiAngleCompositeInput
      \<Rightarrow> (thrown + MultiAngleCompositeOutput) \<times> ViewAngle list" where
  "multiAngleCompositeFlow pu raw =
     (case MultiAngleCompositeInputSchema raw of
        None \<Rightarrow> (Inl schema_error, [])
      | Some input \<Rightarrow> multiAngleCompositeFlow_body pu input)"

definition generateMultiAngleComposite ::
    "prompt_upstream \<Rightarrow> raw_MultiAngleCompositeInput
      \<Rightarrow> (thrown + MultiAngleCompositeOutput) \<times> ViewAngle list" where
  "generateMultiAngleComposite pu raw = multiAngleCompositeFlow pu raw"

section \<open>The Google AI provider\<close>

text \<open>
  Both flows name the model \<^verbatim>\<open>googleai/gemini-2.0-flash-preview-image-generation\<close>,
  so \<^verbatim>\<open>ai.generate\<close> hands the request to the Google AI plugin of Genkit. This is
  the plugin's behaviour, not code of the repository: before it sends anything it
  converts every part of the prompt. A text part is kept; a media part whose URL starts
  with \<^verbatim>\<open>data:\<close> becomes inline data; any other media part is a file reference, for
  which the plugin requires a content type. The flows pass none, so for such a part the
  conversion throws, and \<^verbatim>\<open>ai.generate\<close> rejects without a network request.
\<close>

definition contentType_error :: thrown where
  "contentType_error =
     Error ''Must supply a `contentType` when sending File URIs to Gemini.''"

fun toGeminiPart :: "part \<Rightarrow> thrown + part" where
  "toGeminiPart (text_part t) = Inr (text_part t)"
| "toGeminiPart (media_part u) =
     (if prefix ''data:'' u then Inr (media_part u) else Inl contentType_error)"

fun is_converted :: "thrown + part \<Rightarrow> bool" where
  "is_converted (Inr p) = True"
| "is_converted (Inl e) = False"

text \<open>A request reaches the network when every part of its prompt converts.\<close>

fun sendable :: "request \<Rightarrow> bool" where
  "sendable rq =
     (case prompt rq of
        prompt_text t \<Rightarrow> True
      | prompt_parts ps \<Rightarrow> list_all (\<lambda>p. is_converted (toGeminiPart p)) ps)"

text \<open>
  \<^verbatim>\<open>ai.generate\<close> with the plugin in front of the network: \<open>network\<close> answers the
  requests that are sent.
\<close>

definition googleai :: "upstream \<Rightarrow> upstream" where
  "googleai network n rq =
     (if sendable rq then network n rq else Inl contentType_error)"

text \<open>The network requests behind a trace: the calls whose request is sent.\<close>

definition fetches :: "event list \<Rightarrow> nat" where
  "fetches tr =
     length (filter (\<lambda>e. case e of Generate rq \<Rightarrow> sendable rq | Wait ms \<Rightarrow> False) tr)"

section \<open>The Resilient Remote Generation Call of the specification\<close>

text \<open>
  The failure policy as the specification words it, for comparison with the two loops
  above: \<open>maxAttempts = 3\<close>; each attempt invokes the upstream; an error with the
  overload signature (503 in the message text) while \<open>attemptNumber < maxAttempts\<close>
  is followed by a fixed wait of 3 seconds and a retry with the same request and the next
  attempt number; any other error, and the error of the last attempt, is propagated; a
  success is returned. \<open>invoke n\<close> is the outcome of attempt number \<open>n\<close>.
\<close>

definition maxAttempts :: nat where
  "maxAttempts = 3"

function resilient_call ::
    "(nat \<Rightarrow> thrown + 'a) \<Rightarrow> request \<Rightarrow> nat \<Rightarrow> (thrown + 'a) \<times> event list" where
  "resilient_call invoke rq attemptNumber =
     (case invoke attemptNumber of
        Inr result \<Rightarrow> (Inr result, [Generate rq])
      | Inl err \<Rightarrow>
          if is_503 err \<and> attemptNumber < maxAttempts
          then (case resilient_call invoke rq (attemptNumber + 1) of
                  (r, tr) \<Rightarrow> (r, Generate rq # Wait 3000 # tr))
          else (Inl err, [Generate rq]))"
  by pat_completeness auto
termination
  by (relation "measure (\<lambda>(invoke, rq, attemptNumber). maxAttempts - attemptNumber)") auto

declare resilient_call.simps [simp del]


section \<open>Fake upstreams and sample inputs\<close>

text \<open>
  Concrete upstream behaviours and inputs at which the theorems below are instantiated.
\<close>

definition sample_media :: media where
  "sample_media = \<lparr>url = ''data:image/png;base64,AAAA''\<rparr>"

definition fake_always_503 :: upstream where
  "fake_always_503 n r = Inl (Error ''503 Service Unavailable'')"

definition fake_bad_request :: upstream where
  "fake_bad_request n r = Inl (Error ''400 Bad Request'')"

definition fake_503_then_image :: upstream where
  "fake_503_then_image n r =
     (if n = 0 then Inl (Error ''503 Service Unavailable'') else Inr (Some sample_media))"

definition fake_no_payload :: upstream where
  "fake_no_payload n r = Inr None"

definition fake_image :: upstream where
  "fake_image n r = Inr (Some sample_media)"

definition sample_raw :: raw_SingleViewCompositeInput where
  "sample_raw =
     \<lparr>raw_clothingImageUri = JStr ''data:image/png;base64,CCCC'',
      raw_modelImageUri = JStr ''data:image/png;base64,MMMM'',
      raw_clothingDescription = JStr ''t-shirt with features: red'',
      raw_modelDescription = JStr ''A female model.'',
      raw_viewAngle = JStr ''front''\<rparr>"

definition sample_input :: SingleViewCompositeInput where
  "sample_input =
     \<lparr>clothingImageUri = ''data:image/png;base64,CCCC'',
      modelImageUri = ''data:image/png;base64,MMMM'',
      clothingDescription = ''t-shirt with features: red'',
      modelDescription = ''A female model.'',
      viewAngle = Front\<rparr>"


definition sample_raw_description :: raw_GenerateAiModelInput where
  "sample_raw_description = \<lparr>raw_description = JStr ''A full-body studio portrait.''\<rparr>"

definition sample_description :: GenerateAiModelInput where
  "sample_description = \<lparr>description = ''A full-body studio portrait.''\<rparr>"

text \<open>
  The state of the page when it is first shown: the initial values of its
  \<^verbatim>\<open>useState\<close> hooks and the default values of the model form.
\<close>

definition initial_page_state :: page_state where
  "initial_page_state =
     \<lparr>clothingImage = None, clothingAnalysis = None, modelImage_state = None,
      compositeImage_state = None,
      loadingStates = \<lparr>analyzing = False, generatingModel = False, compositing = False\<rparr>,
      modelForm =
        \<lparr>gender = ''female'', pose = ''standing confidently, hands on hips'',
         bodyType = ''athletic build'', skinTone = ''light brown skin'',
         form_viewAngle = ''front''\<rparr>,
      toasts = []\<rparr>"

definition sample_analysis :: AnalyzeClothingImageOutput where
  "sample_analysis =
     \<lparr>garmentType = ''t-shirt'', clothingFeatures = [''red'', ''crew neck''],
      suggestedGender = ''female''\<rparr>"

definition ready_page_state :: page_state where
  "ready_page_state =
     initial_page_state
       \<lparr>clothingImage := Some ''data:image/png;base64,CCCC'',
        clothingAnalysis := Some sample_analysis,
        modelImage_state := Some ''data:image/png;base64,MMMM''\<rparr>"

definition sample_ma_raw :: raw_MultiAngleCompositeInput where
  "sample_ma_raw =
     \<lparr>raw_ma_clothingImageUri = JStr ''data:image/png;base64,CCCC'',
      raw_ma_modelImageUri = JStr ''data:image/png;base64,MMMM'',
      raw_ma_clothingDescription = JStr ''t-shirt with features: red'',
      raw_ma_modelDescription = JStr ''A female model.''\<rparr>"

definition sample_ma_input :: MultiAngleCompositeInput where
  "sample_ma_input =
     \<lparr>ma_clothingImageUri = ''data:image/png;base64,CCCC'',
      ma_modelImageUri = ''data:image/png;base64,MMMM'',
      ma_clothingDescription = ''t-shirt with features: red'',
      ma_modelDescription = ''A female model.''\<rparr>"

fun fake_views :: prompt_upstream where
  "fake_views Front input = (5, Inr (Some ''data:image/png;base64,FFFF''))"
| "fake_views Side input = (3, Inr None)"
| "fake_views Back input = (4, Inr (Some ''data:image/png;base64,BBBB''))"

fun fake_views_side_fails :: prompt_upstream where
  "fake_views_side_fails Front input = (5, Inr (Some ''data:image/png;base64,FFFF''))"
| "fake_views_side_fails Side input = (3, Inl (Error ''503 Service Unavailable''))"
| "fake_views_side_fails Back input = (4, Inr (Some ''data:image/png;base64,BBBB''))"

section \<open>The retry loop of the single-view flow, unrolled\<close>

text \<open>
  With the loop bound 3 the flow has five ways to end; which one is taken depends on the
  answers to the first, second and third upstream call only.
\<close>

lemma singleView_body_cases:
  "singleViewCompositeFlow_body up input =
     (let G = Generate (singleView_request input); W = Wait 3000 in
      case singleView_try up input 0 of
        Inr v \<Rightarrow> (Inr v, [G])
      | Inl e1 \<Rightarrow>
          if is_503 e1 then
            (case singleView_try up input 1 of
               Inr v \<Rightarrow> (Inr v, [G, W, G])
             | Inl e2 \<Rightarrow>
                 if is_503 e2 then
                   (case singleView_try up input 2 of
                      Inr v \<Rightarrow> (Inr v, [G, W, G, W, G])
                    | Inl e3 \<Rightarrow> (Inl e3, [G, W, G, W, G]))
                 else (Inl e2, [G, W, G]))
          else (Inl e1, [G]))"
  by (simp add: singleViewCompositeFlow_body_def singleView_loop.simps singleView_attempt_def
      calls_def maxRetries_def Let_def numeral_2_eq_2 split: sum.split)

lemma generateSingleViewComposite_valid:
  "SingleViewCompositeInputSchema raw = Some input \<Longrightarrow>
   generateSingleViewComposite up raw = singleViewCompositeFlow_body up input"
  by (simp add: generateSingleViewComposite_def singleViewCompositeFlow_def)

lemma sample_raw_valid: "SingleViewCompositeInputSchema sample_raw = Some sample_input"
  by (simp add: SingleViewCompositeInputSchema_def sample_raw_def sample_input_def)

section \<open>Retry policy of generateSingleViewComposite\<close>

text \<open>
  C1. When every upstream invocation fails with an \<^verbatim>\<open>Error\<close> whose message contains
  \<^verbatim>\<open>503\<close>, the flow makes exactly three upstream calls with exactly two waits of
  3000 ms between them, and rejects with the error of the third call.
\<close>

theorem retry_bound:
  assumes valid: "SingleViewCompositeInputSchema raw = Some input"
    and always503: "\<forall>n r. \<exists>m. up n r = Inl (Error m) \<and> includes_str m ''503''"
  shows "\<exists>e. up 2 (singleView_request input) = Inl e \<and>
           generateSingleViewComposite up raw =
             (Inl e, [Generate (singleView_request input), Wait 3000,
                      Generate (singleView_request input), Wait 3000,
                      Generate (singleView_request input)])"
proof -
  let ?rq = "singleView_request input"
  from always503 obtain m1 where r1: "up 0 ?rq = Inl (Error m1)" "includes_str m1 ''503''"
    by blast
  from always503 obtain m2 where r2: "up 1 ?rq = Inl (Error m2)" "includes_str m2 ''503''"
    by blast
  from always503 obtain m3 where r3: "up 2 ?rq = Inl (Error m3)"
    by blast
  have "singleViewCompositeFlow_body up input =
          (Inl (Error m3), [Generate ?rq, Wait 3000, Generate ?rq, Wait 3000, Generate ?rq])"
    using r1 r2 r3 by (simp add: singleView_body_cases singleView_try_def Let_def)
  with valid r3 show ?thesis
    by (simp add: generateSingleViewComposite_valid)
qed

theorem retry_bound_witness:
  "generateSingleViewComposite fake_always_503 sample_raw =
     (Inl (Error ''503 Service Unavailable''),
      [Generate (singleView_request sample_input), Wait 3000,
       Generate (singleView_request sample_input), Wait 3000,
       Generate (singleView_request sample_input)])
   \<and> calls (snd (generateSingleViewComposite fake_always_503 sample_raw)) = 3
   \<and> waits (snd (generateSingleViewComposite fake_always_503 sample_raw)) = [3000, 3000]"
proof -
  have h: "\<forall>n r. \<exists>m. fake_always_503 n r = Inl (Error m) \<and> includes_str m ''503''"
    by (simp add: fake_always_503_def)
  from retry_bound [OF sample_raw_valid h] obtain e
    where e: "fake_always_503 2 (singleView_request sample_input) = Inl e"
      and g: "generateSingleViewComposite fake_always_503 sample_raw =
                (Inl e, [Generate (singleView_request sample_input), Wait 3000,
                         Generate (singleView_request sample_input), Wait 3000,
                         Generate (singleView_request sample_input)])"
    by blast
  from e have "e = Error ''503 Service Unavailable''"
    by (simp add: fake_always_503_def)
  with g show ?thesis
    by (simp add: calls_def waits_def)
qed

text \<open>
  C2. When the upstream call of an attempt that the flow makes (the call with index
  \<open>k\<close>, counted from 0) fails with a thrown value that does not pass the 503 test,
  the flow rejects with that value, and its trace ends with that call: the \<open>k\<close>
  earlier calls each followed by a wait, then the failing call, no wait and no call
  after it. For \<open>k = 0\<close> the trace is the single call.
\<close>

theorem no_retry_non_overload:
  assumes valid: "SingleViewCompositeInputSchema raw = Some input"
    and made: "k < calls (snd (generateSingleViewComposite up raw))"
    and failed: "up k (singleView_request input) = Inl e"
    and other: "\<not> is_503 e"
  shows "generateSingleViewComposite up raw =
           (Inl e, concat (replicate k [Generate (singleView_request input), Wait 3000])
                   @ [Generate (singleView_request input)])"
proof -
  have k: "k = 0 \<or> k = 1 \<or> k = 2 \<or> 3 \<le> k" by arith
  show ?thesis
    using made failed other k
    unfolding generateSingleViewComposite_valid [OF valid] singleView_body_cases Let_def
    by (auto simp: singleView_try_def calls_def numeral_2_eq_2 split: sum.splits if_splits)
qed

theorem no_retry_non_overload_witness:
  "generateSingleViewComposite fake_bad_request sample_raw =
     (Inl (Error ''400 Bad Request''), [Generate (singleView_request sample_input)])"
proof -
  have g: "generateSingleViewComposite fake_bad_request sample_raw =
             (Inl (Error ''400 Bad Request''), [Generate (singleView_request sample_input)])"
    by (simp add: generateSingleViewComposite_valid [OF sample_raw_valid]
        singleView_body_cases singleView_try_def fake_bad_request_def)
  have made: "0 < calls (snd (generateSingleViewComposite fake_bad_request sample_raw))"
    by (simp add: g calls_def)
  have failed: "fake_bad_request 0 (singleView_request sample_input)
                  = Inl (Error ''400 Bad Request'')"
    by (simp add: fake_bad_request_def)
  have other: "\<not> is_503 (Error ''400 Bad Request'')"
    by simp
  from no_retry_non_overload [OF sample_raw_valid made failed other] show ?thesis
    by simp
qed

text \<open>
  C3. When the first upstream call fails with a thrown value passing the 503 test and the
  second call succeeds, the flow resolves with the image of the second call (its
  \<^verbatim>\<open>url\<close>, or the empty string when it carries none) after exactly one wait of 3000 ms.
\<close>

theorem success_after_transient_failure:
  assumes valid: "SingleViewCompositeInputSchema raw = Some input"
    and first: "up 0 (singleView_request input) = Inl e"
    and transient: "is_503 e"
    and second: "up 1 (singleView_request input) = Inr m"
  shows "generateSingleViewComposite up raw =
           (Inr \<lparr>compositeImage = or_empty (map_option url m)\<rparr>,
            [Generate (singleView_request input), Wait 3000,
             Generate (singleView_request input)])"
  using first transient second
  by (simp add: generateSingleViewComposite_valid [OF valid] singleView_body_cases
      singleView_try_def Let_def)

theorem success_after_transient_failure_witness:
  "generateSingleViewComposite fake_503_then_image sample_raw =
     (Inr \<lparr>compositeImage = ''data:image/png;base64,AAAA''\<rparr>,
      [Generate (singleView_request sample_input), Wait 3000,
       Generate (singleView_request sample_input)])"
proof -
  have first: "fake_503_then_image 0 (singleView_request sample_input)
                 = Inl (Error ''503 Service Unavailable'')"
    by (simp add: fake_503_then_image_def)
  have transient: "is_503 (Error ''503 Service Unavailable'')"
    by simp
  have second: "fake_503_then_image 1 (singleView_request sample_input)
                  = Inr (Some sample_media)"
    by (simp add: fake_503_then_image_def)
  from success_after_transient_failure
    [where up = fake_503_then_image, OF sample_raw_valid first transient second]
  show ?thesis
    by (simp add: sample_media_def)
qed

text \<open>
  C4. When an upstream call that the flow makes completes without error and without an
  image payload, the flow resolves (it does not throw) with the empty string as its
  composite image, and that call is its last.
\<close>

theorem empty_payload_resolves:
  assumes valid: "SingleViewCompositeInputSchema raw = Some input"
    and made: "k < calls (snd (generateSingleViewComposite up raw))"
    and no_payload: "up k (singleView_request input) = Inr None"
  shows "generateSingleViewComposite up raw =
           (Inr \<lparr>compositeImage = []\<rparr>,
            concat (replicate k [Generate (singleView_request input), Wait 3000])
            @ [Generate (singleView_request input)])"
proof -
  have k: "k = 0 \<or> k = 1 \<or> k = 2 \<or> 3 \<le> k" by arith
  show ?thesis
    using made no_payload k
    unfolding generateSingleViewComposite_valid [OF valid] singleView_body_cases Let_def
    by (auto simp: singleView_try_def calls_def numeral_2_eq_2 split: sum.splits if_splits)
qed

theorem empty_payload_resolves_witness:
  "generateSingleViewComposite fake_no_payload sample_raw =
     (Inr \<lparr>compositeImage = []\<rparr>, [Generate (singleView_request sample_input)])"
proof -
  have g: "generateSingleViewComposite fake_no_payload sample_raw =
             (Inr \<lparr>compositeImage = []\<rparr>, [Generate (singleView_request sample_input)])"
    by (simp add: generateSingleViewComposite_valid [OF sample_raw_valid]
        singleView_body_cases singleView_try_def fake_no_payload_def)
  have made: "0 < calls (snd (generateSingleViewComposite fake_no_payload sample_raw))"
    by (simp add: g calls_def)
  have no_payload: "fake_no_payload 0 (singleView_request sample_input) = Inr None"
    by (simp add: fake_no_payload_def)
  from empty_payload_resolves [OF sample_raw_valid made no_payload] show ?thesis
    by simp
qed

section \<open>The loop of generateAiModelFlow, and the specification's policy, unrolled\<close>

lemma generateAiModel_body_cases:
  "generateAiModelFlow_body up input =
     (let G = Generate (generateAiModel_request input); W = Wait 3000 in
      case generateAiModel_try up input 0 of
        Inr v \<Rightarrow> (Inr v, [G])
      | Inl e1 \<Rightarrow>
          if is_503 e1 then
            (case generateAiModel_try up input 1 of
               Inr v \<Rightarrow> (Inr v, [G, W, G])
             | Inl e2 \<Rightarrow>
                 if is_503 e2 then
                   (case generateAiModel_try up input 2 of
                      Inr v \<Rightarrow> (Inr v, [G, W, G, W, G])
                    | Inl e3 \<Rightarrow> (Inl e3, [G, W, G, W, G]))
                 else (Inl e2, [G, W, G]))
          else (Inl e1, [G]))"
  by (simp add: generateAiModelFlow_body_def generateAiModel_loop.simps
      generateAiModel_attempt_def calls_def maxRetries_def Let_def numeral_2_eq_2
      split: sum.split)

lemma generateAiModel_valid:
  "GenerateAiModelInputSchema raw = Some input \<Longrightarrow>
   generateAiModel up raw = generateAiModelFlow_body up input"
  by (simp add: generateAiModel_def generateAiModelFlow_def)

lemma sample_raw_description_valid:
  "GenerateAiModelInputSchema sample_raw_description = Some sample_description"
  by (simp add: GenerateAiModelInputSchema_def sample_raw_description_def
      sample_description_def)

lemma resilient_call_cases:
  "resilient_call invoke rq 1 =
     (let G = Generate rq; W = Wait 3000 in
      case invoke 1 of
        Inr v \<Rightarrow> (Inr v, [G])
      | Inl e1 \<Rightarrow>
          if is_503 e1 then
            (case invoke 2 of
               Inr v \<Rightarrow> (Inr v, [G, W, G])
             | Inl e2 \<Rightarrow>
                 if is_503 e2 then
                   (case invoke 3 of
                      Inr v \<Rightarrow> (Inr v, [G, W, G, W, G])
                    | Inl e3 \<Rightarrow> (Inl e3, [G, W, G, W, G]))
                 else (Inl e2, [G, W, G]))
          else (Inl e1, [G]))"
  by (simp add: resilient_call.simps maxAttempts_def Let_def numeral_2_eq_2 numeral_3_eq_3
      split: sum.split)

lemma singleView_refines_resilient_call:
  "singleViewCompositeFlow_body up input =
     resilient_call (\<lambda>n. singleView_try up input (n - 1)) (singleView_request input) 1"
  unfolding singleView_body_cases resilient_call_cases
  by (simp add: Let_def numeral_2_eq_2 numeral_3_eq_3 split: sum.split)

lemma generateAiModel_refines_resilient_call:
  "generateAiModelFlow_body up input =
     resilient_call (\<lambda>n. generateAiModel_try up input (n - 1))
       (generateAiModel_request input) 1"
  unfolding generateAiModel_body_cases resilient_call_cases
  by (simp add: Let_def numeral_2_eq_2 numeral_3_eq_3 split: sum.split)

lemma media_TypeError_not_503: "\<not> is_503 media_TypeError"
  by (simp add: media_TypeError_def)

section \<open>No iteration falls out of the loop\<close>










section \<open>generateAiModel against generateSingleViewComposite\<close>

text \<open>
  C5, as stated, fails on an upstream success without image payload: the single-view flow
  resolves with the empty string, and \<^verbatim>\<open>generateAiModel\<close> rejects with the
  \<^verbatim>\<open>TypeError\<close> of \<^verbatim>\<open>media!.url\<close> after that one call.
\<close>

theorem generateAiModel_no_payload_counterexample:
  "fst (generateSingleViewComposite fake_no_payload sample_raw) = Inr \<lparr>compositeImage = []\<rparr>
   \<and> fst (generateAiModel fake_no_payload sample_raw_description) \<noteq> Inr \<lparr>modelImage = []\<rparr>
   \<and> generateAiModel fake_no_payload sample_raw_description =
       (Inl media_TypeError, [Generate (generateAiModel_request sample_description)])"
  by (simp add: generateSingleViewComposite_valid [OF sample_raw_valid] singleView_body_cases
      singleView_try_def generateAiModel_valid [OF sample_raw_description_valid]
      generateAiModel_body_cases generateAiModel_try_def fake_no_payload_def
      media_TypeError_not_503)

text \<open>
  C5, amended. Both flows are instances of the specification's Resilient Remote
  Generation Call: for every upstream behaviour each equals \<open>resilient_call\<close> started at
  attempt 1 over its own request (three attempts, waits of 3000 ms, the 503 test on the
  message). They differ in what an attempt makes of an upstream success without image
  payload: for \<^verbatim>\<open>generateAiModel\<close> it is a thrown \<^verbatim>\<open>TypeError\<close>, which fails the
  503 test, so the flow rejects with it and that call is its last.
\<close>

theorem generateAiModel_same_retry_policy:
  assumes valid: "SingleViewCompositeInputSchema raw = Some input"
    and valid': "GenerateAiModelInputSchema raw' = Some input'"
  shows "generateSingleViewComposite up raw =
           resilient_call (\<lambda>n. singleView_try up input (n - 1)) (singleView_request input) 1
         \<and> generateAiModel up' raw' =
           resilient_call (\<lambda>n. generateAiModel_try up' input' (n - 1))
             (generateAiModel_request input') 1
         \<and> (k < calls (snd (generateAiModel up' raw'))
              \<and> up' k (generateAiModel_request input') = Inr None
            \<longrightarrow> generateAiModel up' raw' =
                  (Inl media_TypeError,
                   concat (replicate k [Generate (generateAiModel_request input'), Wait 3000])
                   @ [Generate (generateAiModel_request input')]))"
proof -
  have a: "generateSingleViewComposite up raw =
             resilient_call (\<lambda>n. singleView_try up input (n - 1))
               (singleView_request input) 1"
    by (simp only: generateSingleViewComposite_valid [OF valid]
        singleView_refines_resilient_call)
  have b: "generateAiModel up' raw' =
             resilient_call (\<lambda>n. generateAiModel_try up' input' (n - 1))
               (generateAiModel_request input') 1"
    by (simp only: generateAiModel_valid [OF valid'] generateAiModel_refines_resilient_call)
  have c: "generateAiModel up' raw' =
             (Inl media_TypeError,
              concat (replicate k [Generate (generateAiModel_request input'), Wait 3000])
              @ [Generate (generateAiModel_request input')])"
    if made: "k < calls (snd (generateAiModel up' raw'))"
      and no_payload: "up' k (generateAiModel_request input') = Inr None"
  proof -
    have k: "k = 0 \<or> k = 1 \<or> k = 2 \<or> 3 \<le> k" by arith
    show ?thesis
      using made no_payload k media_TypeError_not_503
      unfolding generateAiModel_valid [OF valid'] generateAiModel_body_cases Let_def
      by (auto simp: generateAiModel_try_def calls_def numeral_2_eq_2
          split: sum.splits if_splits option.splits)
  qed
  from a b c show ?thesis by blast
qed

theorem generateAiModel_same_retry_policy_witness:
  "generateAiModel fake_503_then_image sample_raw_description =
     (Inr \<lparr>modelImage = ''data:image/png;base64,AAAA''\<rparr>,
      [Generate (generateAiModel_request sample_description), Wait 3000,
       Generate (generateAiModel_request sample_description)])
   \<and> fst (generateAiModel fake_no_payload sample_raw_description) = Inl media_TypeError"
proof -
  have eq: "generateAiModel fake_503_then_image sample_raw_description =
              resilient_call
                (\<lambda>n. generateAiModel_try fake_503_then_image sample_description (n - 1))
                (generateAiModel_request sample_description) 1"
    using generateAiModel_same_retry_policy
      [where up' = fake_503_then_image, OF sample_raw_valid sample_raw_description_valid]
    by blast
  have first: "generateAiModel fake_503_then_image sample_raw_description =
     (Inr \<lparr>modelImage = ''data:image/png;base64,AAAA''\<rparr>,
      [Generate (generateAiModel_request sample_description), Wait 3000,
       Generate (generateAiModel_request sample_description)])"
    unfolding eq resilient_call_cases
    by (simp add: generateAiModel_try_def fake_503_then_image_def sample_media_def Let_def)
  have g: "generateAiModel fake_no_payload sample_raw_description =
             (Inl media_TypeError, [Generate (generateAiModel_request sample_description)])"
    by (simp add: generateAiModel_valid [OF sample_raw_description_valid]
        generateAiModel_body_cases generateAiModel_try_def fake_no_payload_def
        media_TypeError_not_503)
  have made: "0 < calls (snd (generateAiModel fake_no_payload sample_raw_description))"
    by (simp add: g calls_def)
  have no_payload:
    "fake_no_payload 0 (generateAiModel_request sample_description) = Inr None"
    by (simp add: fake_no_payload_def)
  have "generateAiModel fake_no_payload sample_raw_description =
          (Inl media_TypeError,
           concat (replicate 0 [Generate (generateAiModel_request sample_description),
                                Wait 3000])
           @ [Generate (generateAiModel_request sample_description)])"
    using generateAiModel_same_retry_policy
      [where up' = fake_no_payload and k = 0,
       OF sample_raw_valid sample_raw_description_valid] made no_payload
    by blast
  then have second: "fst (generateAiModel fake_no_payload sample_raw_description)
                       = Inl media_TypeError"
    by simp
  from first second show ?thesis by simp
qed

section \<open>Input validation\<close>

lemma singleView_trace_events:
  "Generate (singleView_request input) \<in> set (snd (singleViewCompositeFlow_body up input))
   \<and> set (snd (singleViewCompositeFlow_body up input))
       \<subseteq> {Generate (singleView_request input), Wait 3000}
   \<and> hd (snd (singleViewCompositeFlow_body up input)) = Generate (singleView_request input)"
  by (simp add: singleView_body_cases Let_def split: sum.split)





text \<open>With data URLs for both images the request is sent: one network request.\<close>

lemma sample_request_is_sent:
  "generateSingleViewComposite (googleai fake_image) sample_raw =
     (Inr \<lparr>compositeImage = ''data:image/png;base64,AAAA''\<rparr>,
      [Generate (singleView_request sample_input)])
   \<and> fetches (snd (generateSingleViewComposite (googleai fake_image) sample_raw)) = 1"
proof -
  have s: "sendable (singleView_request sample_input)"
    by (simp add: singleView_request_def sample_input_def)
  then show ?thesis
    by (simp add: generateSingleViewComposite_valid [OF sample_raw_valid]
        singleView_body_cases singleView_try_def googleai_def fake_image_def
        sample_media_def fetches_def)
qed



section \<open>The instruction for the view angle\<close>

lemma includes_str_self_append: "includes_str (p @ ys) p"
proof (cases "p @ ys")
  case Nil
  then show ?thesis by simp
next
  case (Cons c cs)
  have "prefix p (p @ ys)" by simp
  with Cons show ?thesis by simp
qed

lemma includes_str_append_left: "includes_str ys p \<Longrightarrow> includes_str (xs @ ys) p"
  by (induction xs) auto

text \<open>\<open>includes_str\<close> is the substring test.\<close>

lemma includes_str_iff: "includes_str s p \<longleftrightarrow> (\<exists>a b. s = a @ p @ b)"
proof (induction s)
  case Nil
  then show ?case by auto
next
  case (Cons c cs)
  show ?case
  proof
    assume "includes_str (c # cs) p"
    then consider "prefix p (c # cs)" | "includes_str cs p" by auto
    then show "\<exists>a b. c # cs = a @ p @ b"
    proof cases
      case 1
      then obtain b where "c # cs = p @ b" by (auto simp: prefix_def)
      then have "c # cs = [] @ p @ b" by simp
      then show ?thesis by blast
    next
      case 2
      with Cons obtain a b where "cs = a @ p @ b" by blast
      then have "c # cs = (c # a) @ p @ b" by simp
      then show ?thesis by blast
    qed
  next
    assume "\<exists>a b. c # cs = a @ p @ b"
    then obtain a b where ab: "c # cs = a @ p @ b" by blast
    show "includes_str (c # cs) p"
      unfolding ab by (rule includes_str_append_left) (rule includes_str_self_append)
  qed
qed

lemma text_includes_instruction:
  "includes_str (singleView_text input) (viewAngleInstructions (viewAngle input))"
  unfolding singleView_text_def
  by (intro includes_str_append_left includes_str_self_append)

lemma schema_viewAngle:
  "SingleViewCompositeInputSchema raw = Some input \<Longrightarrow>
   raw_viewAngle raw = JStr (viewAngle_str (viewAngle input))
   \<and> raw_clothingImageUri raw = JStr (clothingImageUri input)
   \<and> raw_modelImageUri raw = JStr (modelImageUri input)"
  by (cases "raw_viewAngle raw"; cases "raw_clothingImageUri raw";
      cases "raw_modelImageUri raw")
    (auto simp: SingleViewCompositeInputSchema_def split: option.splits if_splits)

text \<open>
  C7. Every upstream request of the flow carries the two images and one text part, and
  the flow makes at least one such request. The text is the template of the flow with the
  name and the one instruction of the view angle of the input, and nothing of the other
  two: for \<^verbatim>\<open>front\<close> the forward-facing instruction, for \<^verbatim>\<open>side\<close> the 90-degree
  side-profile instruction, for \<^verbatim>\<open>back\<close> the 180-degree instruction for the view
  from behind. These three are the only view angles the flow accepts.
\<close>

theorem view_angle_instruction_in_request:
  assumes valid: "SingleViewCompositeInputSchema raw = Some input"
  shows "(\<exists>rq. Generate rq \<in> set (snd (generateSingleViewComposite up raw)))
    \<and> (\<forall>rq. Generate rq \<in> set (snd (generateSingleViewComposite up raw)) \<longrightarrow>
         prompt rq = prompt_parts
           [media_part (clothingImageUri input), media_part (modelImageUri input),
            text_part (singleView_text input)])
    \<and> includes_str (singleView_text input) (viewAngleInstructions (viewAngle input))
    \<and> (raw_viewAngle raw = JStr ''front'' \<or> raw_viewAngle raw = JStr ''side''
         \<or> raw_viewAngle raw = JStr ''back'')
    \<and> (raw_viewAngle raw = JStr ''front'' \<longrightarrow>
         includes_str (singleView_text input)
           ''Show the model from the front angle, facing forward''
         \<and> singleView_text input =
           ''Composite the clothing item from the first image onto the AI model in the second image from a front view perspective. ''
           @ ''Show the model from the front angle, facing forward.\<newline>\<newline>Requirements:\<newline>''
           @ ''- Ensure the clothing fits naturally on the model from the specified angle\<newline>''
           @ ''- Maintain realistic lighting and shadows  \<newline>''
           @ ''- Preserve the clothing's original colors and textures\<newline>''
           @ ''- Create a professional fashion photography look\<newline>''
           @ ''- Show how the garment drapes and fits from this specific perspective\<newline>\<newline>''
           @ ''Model: '' @ modelDescription input
           @ ''\<newline>Clothing: '' @ clothingDescription input
           @ ''\<newline>\<newline>Generate a high-quality front view composite.'')
    \<and> (raw_viewAngle raw = JStr ''side'' \<longrightarrow>
         includes_str (singleView_text input)
           ''Show the model from a side profile angle (90 degrees), showing the side silhouette''
         \<and> singleView_text input =
           ''Composite the clothing item from the first image onto the AI model in the second image from a side view perspective. ''
           @ ''Show the model from a side profile angle (90 degrees), showing the side silhouette.\<newline>\<newline>Requirements:\<newline>''
           @ ''- Ensure the clothing fits naturally on the model from the specified angle\<newline>''
           @ ''- Maintain realistic lighting and shadows  \<newline>''
           @ ''- Preserve the clothing's original colors and textures\<newline>''
           @ ''- Create a professional fashion photography look\<newline>''
           @ ''- Show how the garment drapes and fits from this specific perspective\<newline>\<newline>''
           @ ''Model: '' @ modelDescription input
           @ ''\<newline>Clothing: '' @ clothingDescription input
           @ ''\<newline>\<newline>Generate a high-quality side view composite.'')
    \<and> (raw_viewAngle raw = JStr ''back'' \<longrightarrow>
         includes_str (singleView_text input)
           ''Show the model from behind (180 degrees), showing the back of the outfit''
         \<and> singleView_text input =
           ''Composite the clothing item from the first image onto the AI model in the second image from a back view perspective. ''
           @ ''Show the model from behind (180 degrees), showing the back of the outfit.\<newline>\<newline>Requirements:\<newline>''
           @ ''- Ensure the clothing fits naturally on the model from the specified angle\<newline>''
           @ ''- Maintain realistic lighting and shadows  \<newline>''
           @ ''- Preserve the clothing's original colors and textures\<newline>''
           @ ''- Create a professional fashion photography look\<newline>''
           @ ''- Show how the garment drapes and fits from this specific perspective\<newline>\<newline>''
           @ ''Model: '' @ modelDescription input
           @ ''\<newline>Clothing: '' @ clothingDescription input
           @ ''\<newline>\<newline>Generate a high-quality back view composite.'')"
proof -
  let ?tr = "snd (generateSingleViewComposite up raw)"
  have tr: "?tr = snd (singleViewCompositeFlow_body up input)"
    by (simp add: generateSingleViewComposite_valid [OF valid])
  have a: "\<exists>rq. Generate rq \<in> set ?tr"
    unfolding tr using singleView_trace_events by blast
  have b: "prompt rq = prompt_parts
           [media_part (clothingImageUri input), media_part (modelImageUri input),
            text_part (singleView_text input)]"
    if "Generate rq \<in> set ?tr" for rq
  proof -
    from that singleView_trace_events [of input up]
    have "rq = singleView_request input"
      unfolding tr by auto
    then show ?thesis by (simp add: singleView_request_def)
  qed
  note c = text_includes_instruction [of input]
  from schema_viewAngle [OF valid]
  have va: "raw_viewAngle raw = JStr (viewAngle_str (viewAngle input))" by simp
  have angles: "raw_viewAngle raw = JStr ''front'' \<or> raw_viewAngle raw = JStr ''side''
         \<or> raw_viewAngle raw = JStr ''back''"
    unfolding va by (cases "viewAngle input") simp_all
  have is_front: "viewAngle input = Front" if "raw_viewAngle raw = JStr ''front''"
    using that va by (cases "viewAngle input") simp_all
  have is_side: "viewAngle input = Side" if "raw_viewAngle raw = JStr ''side''"
    using that va by (cases "viewAngle input") simp_all
  have is_back: "viewAngle input = Back" if "raw_viewAngle raw = JStr ''back''"
    using that va by (cases "viewAngle input") simp_all
  have d: "includes_str (singleView_text input)
             ''Show the model from the front angle, facing forward''"
    if "raw_viewAngle raw = JStr ''front''"
    using is_front [OF that] c by simp
  have d': "singleView_text input =
           ''Composite the clothing item from the first image onto the AI model in the second image from a front view perspective. ''
           @ ''Show the model from the front angle, facing forward.\<newline>\<newline>Requirements:\<newline>''
           @ ''- Ensure the clothing fits naturally on the model from the specified angle\<newline>''
           @ ''- Maintain realistic lighting and shadows  \<newline>''
           @ ''- Preserve the clothing's original colors and textures\<newline>''
           @ ''- Create a professional fashion photography look\<newline>''
           @ ''- Show how the garment drapes and fits from this specific perspective\<newline>\<newline>''
           @ ''Model: '' @ modelDescription input
           @ ''\<newline>Clothing: '' @ clothingDescription input
           @ ''\<newline>\<newline>Generate a high-quality front view composite.''"
    if "raw_viewAngle raw = JStr ''front''"
    using is_front [OF that] by (simp add: singleView_text_def)
  have e: "includes_str (singleView_text input)
      ''Show the model from a side profile angle (90 degrees), showing the side silhouette''"
    if "raw_viewAngle raw = JStr ''side''"
    using is_side [OF that] c by simp
  have e': "singleView_text input =
           ''Composite the clothing item from the first image onto the AI model in the second image from a side view perspective. ''
           @ ''Show the model from a side profile angle (90 degrees), showing the side silhouette.\<newline>\<newline>Requirements:\<newline>''
           @ ''- Ensure the clothing fits naturally on the model from the specified angle\<newline>''
           @ ''- Maintain realistic lighting and shadows  \<newline>''
           @ ''- Preserve the clothing's original colors and textures\<newline>''
           @ ''- Create a professional fashion photography look\<newline>''
           @ ''- Show how the garment drapes and fits from this specific perspective\<newline>\<newline>''
           @ ''Model: '' @ modelDescription input
           @ ''\<newline>Clothing: '' @ clothingDescription input
           @ ''\<newline>\<newline>Generate a high-quality side view composite.''"
    if "raw_viewAngle raw = JStr ''side''"
    using is_side [OF that] by (simp add: singleView_text_def)
  have f: "includes_str (singleView_text input)
             ''Show the model from behind (180 degrees), showing the back of the outfit''"
    if "raw_viewAngle raw = JStr ''back''"
    using is_back [OF that] c by simp
  have f': "singleView_text input =
           ''Composite the clothing item from the first image onto the AI model in the second image from a back view perspective. ''
           @ ''Show the model from behind (180 degrees), showing the back of the outfit.\<newline>\<newline>Requirements:\<newline>''
           @ ''- Ensure the clothing fits naturally on the model from the specified angle\<newline>''
           @ ''- Maintain realistic lighting and shadows  \<newline>''
           @ ''- Preserve the clothing's original colors and textures\<newline>''
           @ ''- Create a professional fashion photography look\<newline>''
           @ ''- Show how the garment drapes and fits from this specific perspective\<newline>\<newline>''
           @ ''Model: '' @ modelDescription input
           @ ''\<newline>Clothing: '' @ clothingDescription input
           @ ''\<newline>\<newline>Generate a high-quality back view composite.''"
    if "raw_viewAngle raw = JStr ''back''"
    using is_back [OF that] by (simp add: singleView_text_def)
  show ?thesis
    using a b c angles d d' e e' f f'
    by (intro conjI impI allI) blast+
qed

theorem view_angle_instruction_in_request_witness:
  "(\<exists>rq. Generate rq \<in> set (snd (generateSingleViewComposite fake_image sample_raw)))
   \<and> includes_str (singleView_text sample_input)
       ''Show the model from the front angle, facing forward''
   \<and> singleView_text sample_input =
       ''Composite the clothing item from the first image onto the AI model in the second image from a front view perspective. ''
       @ ''Show the model from the front angle, facing forward.\<newline>\<newline>Requirements:\<newline>''
       @ ''- Ensure the clothing fits naturally on the model from the specified angle\<newline>''
       @ ''- Maintain realistic lighting and shadows  \<newline>''
       @ ''- Preserve the clothing's original colors and textures\<newline>''
       @ ''- Create a professional fashion photography look\<newline>''
       @ ''- Show how the garment drapes and fits from this specific perspective\<newline>\<newline>''
       @ ''Model: A female model.\<newline>Clothing: t-shirt with features: red''
       @ ''\<newline>\<newline>Generate a high-quality front view composite.''"
proof -
  have front: "raw_viewAngle sample_raw = JStr ''front''"
    by (simp add: sample_raw_def)
  have md: "modelDescription sample_input = ''A female model.''"
    and cd: "clothingDescription sample_input = ''t-shirt with features: red''"
    by (simp_all add: sample_input_def)
  from view_angle_instruction_in_request [OF sample_raw_valid, where up = fake_image] front
  have "(\<exists>rq. Generate rq \<in> set (snd (generateSingleViewComposite fake_image sample_raw)))
    \<and> includes_str (singleView_text sample_input)
        ''Show the model from the front angle, facing forward''
    \<and> singleView_text sample_input =
           ''Composite the clothing item from the first image onto the AI model in the second image from a front view perspective. ''
           @ ''Show the model from the front angle, facing forward.\<newline>\<newline>Requirements:\<newline>''
           @ ''- Ensure the clothing fits naturally on the model from the specified angle\<newline>''
           @ ''- Maintain realistic lighting and shadows  \<newline>''
           @ ''- Preserve the clothing's original colors and textures\<newline>''
           @ ''- Create a professional fashion photography look\<newline>''
           @ ''- Show how the garment drapes and fits from this specific perspective\<newline>\<newline>''
           @ ''Model: '' @ modelDescription sample_input
           @ ''\<newline>Clothing: '' @ clothingDescription sample_input
           @ ''\<newline>\<newline>Generate a high-quality front view composite.''"
    by blast
  then show ?thesis
    unfolding md cd by simp
qed

section \<open>The guard of the page handler\<close>

text \<open>
  C8. When the clothing image or the model image is absent (\<^verbatim>\<open>null\<close> or empty) or the
  clothing analysis is absent, \<^verbatim>\<open>handleCreateTryOn\<close> shows the Missing Images toast and
  returns: it does not invoke the composite flow, no upstream call or wait happens, and
  the rest of the page state (the compositing flag and the composite image included) is
  as before.
\<close>

theorem missing_field_detected_before_call:
  assumes missing: "clothingImage s = None \<or> clothingImage s = Some []
      \<or> modelImage_state s = None \<or> modelImage_state s = Some []
      \<or> clothingAnalysis s = None"
  shows "handleCreateTryOn up s = (s\<lparr>toasts := toasts s @ [missing_images_toast]\<rparr>, [], [])"
proof -
  from missing
  have "\<not> truthy (clothingImage s) \<or> \<not> truthy (modelImage_state s)
          \<or> clothingAnalysis s = None"
    by auto
  then show ?thesis
    by (simp add: handleCreateTryOn_def)
qed

theorem missing_field_detected_before_call_witness:
  "handleCreateTryOn fake_image initial_page_state =
     (initial_page_state\<lparr>toasts := [missing_images_toast]\<rparr>, [], [])
   \<and> handleCreateTryOn fake_image (ready_page_state\<lparr>modelImage_state := Some []\<rparr>) =
     (ready_page_state\<lparr>modelImage_state := Some [],
        toasts := [missing_images_toast]\<rparr>, [], [])"
proof -
  have a: "clothingImage initial_page_state = None"
    by (simp add: initial_page_state_def)
  have b: "modelImage_state (ready_page_state\<lparr>modelImage_state := Some []\<rparr>) = Some []"
    by simp
  have ta: "toasts initial_page_state = []"
    by (simp add: initial_page_state_def)
  have tb: "toasts (ready_page_state\<lparr>modelImage_state := Some []\<rparr>) = []"
    by (simp add: ready_page_state_def initial_page_state_def)
  from missing_field_detected_before_call [where s = initial_page_state and up = fake_image] a
  have first: "handleCreateTryOn fake_image initial_page_state =
     (initial_page_state\<lparr>toasts := toasts initial_page_state @ [missing_images_toast]\<rparr>,
      [], [])"
    by blast
  from missing_field_detected_before_call
    [where s = "ready_page_state\<lparr>modelImage_state := Some []\<rparr>" and up = fake_image] b
  have second: "handleCreateTryOn fake_image (ready_page_state\<lparr>modelImage_state := Some []\<rparr>) =
     ((ready_page_state\<lparr>modelImage_state := Some []\<rparr>)
        \<lparr>toasts := toasts (ready_page_state\<lparr>modelImage_state := Some []\<rparr>)
                   @ [missing_images_toast]\<rparr>, [], [])"
    by blast
  from first second show ?thesis
    unfolding ta tb by simp
qed

text \<open>
  With all three values present the guard lets the handler through: it invokes the flow
  once, with the state's images and the descriptions built from the form and the analysis.
\<close>

lemma handleCreateTryOn_ready:
  "fst (snd (handleCreateTryOn fake_image ready_page_state)) =
     [\<lparr>raw_clothingImageUri = JStr ''data:image/png;base64,CCCC'',
       raw_modelImageUri = JStr ''data:image/png;base64,MMMM'',
       raw_clothingDescription = JStr ''t-shirt with features: red, crew neck'',
       raw_modelDescription = JStr
         ''A female model with light brown skin and an athletic build. The model is standing confidently, hands on hips.'',
       raw_viewAngle = JStr ''front''\<rparr>]
   \<and> compositeImage_state (fst (handleCreateTryOn fake_image ready_page_state))
       = Some ''data:image/png;base64,AAAA''
   \<and> calls (snd (snd (handleCreateTryOn fake_image ready_page_state))) = 1"
  by (simp add: handleCreateTryOn_def handleCreateTryOn_run_def ready_page_state_def
      initial_page_state_def sample_analysis_def Let_def generateSingleViewComposite_def
      singleViewCompositeFlow_def SingleViewCompositeInputSchema_def singleView_body_cases
      singleView_try_def fake_image_def sample_media_def calls_def)

section \<open>Multi-angle composite flow\<close>

lemma Promise_all_three:
  "Promise_all [(t1, r1), (t2, r2), (t3, r3)] =
     (case (r1, r2, r3) of
        (Inr a, Inr b, Inr c) \<Rightarrow> Inr [a, b, c]
      | (Inl e1, Inr b, Inr c) \<Rightarrow> Inl e1
      | (Inr a, Inl e2, Inr c) \<Rightarrow> Inl e2
      | (Inr a, Inr b, Inl e3) \<Rightarrow> Inl e3
      | (Inl e1, Inl e2, Inr c) \<Rightarrow> (if t2 < t1 then Inl e2 else Inl e1)
      | (Inl e1, Inr b, Inl e3) \<Rightarrow> (if t3 < t1 then Inl e3 else Inl e1)
      | (Inr a, Inl e2, Inl e3) \<Rightarrow> (if t3 < t2 then Inl e3 else Inl e2)
      | (Inl e1, Inl e2, Inl e3) \<Rightarrow>
          (if t3 < t2 then (if t3 < t1 then Inl e3 else Inl e1)
           else (if t2 < t1 then Inl e2 else Inl e1)))"
  by (simp add: Promise_all_def split: sum.split)

lemma generateMultiAngleComposite_valid:
  "MultiAngleCompositeInputSchema raw = Some input \<Longrightarrow>
   generateMultiAngleComposite pu raw = multiAngleCompositeFlow_body pu input"
  by (simp add: generateMultiAngleComposite_def multiAngleCompositeFlow_def)

lemma sample_ma_raw_valid: "MultiAngleCompositeInputSchema sample_ma_raw = Some sample_ma_input"
  by (simp add: MultiAngleCompositeInputSchema_def sample_ma_raw_def sample_ma_input_def)

lemma multiAngle_issued: "snd (multiAngleCompositeFlow_body pu input) = [Front, Side, Back]"
  by (simp add: multiAngleCompositeFlow_body_def split: sum.split list.split)

lemma multiAngle_all_fulfilled:
  assumes "snd (pu Front input) = Inr f" "snd (pu Side input) = Inr s"
    "snd (pu Back input) = Inr b"
  shows "fst (multiAngleCompositeFlow_body pu input) =
           Inr \<lparr>frontView = or_empty f, sideView = or_empty s, backView = or_empty b\<rparr>"
proof -
  obtain t1 t2 t3 where "pu Front input = (t1, Inr f)" "pu Side input = (t2, Inr s)"
    "pu Back input = (t3, Inr b)"
    using assms by (metis prod.collapse)
  then show ?thesis
    by (simp add: multiAngleCompositeFlow_body_def Promise_all_three)
qed

lemma first_rejection_member:
  "first_rejection ps = Some (t', e') \<Longrightarrow> (t', Inl e') \<in> set ps"
  by (induction ps arbitrary: t' e' rule: first_rejection.induct)
    (auto split: option.splits if_splits)

lemma first_rejection_earliest:
  "(t, Inl e) \<in> set ps \<Longrightarrow> \<exists>t' e'. first_rejection ps = Some (t', e') \<and> t' \<le> t"
  by (induction ps rule: first_rejection.induct)
    (fastforce split: option.splits if_splits)+

lemma multiAngle_first_rejection:
  assumes "pu v input = (t, Inl e)"
  shows "\<exists>v' t' e'. pu v' input = (t', Inl e') \<and> t' \<le> t
           \<and> fst (multiAngleCompositeFlow_body pu input) = Inl e'"
proof -
  let ?ps = "[pu Front input, pu Side input, pu Back input]"
  from assms have "(t, Inl e) \<in> set ?ps"
    by (cases v) auto
  from first_rejection_earliest [OF this] obtain t' e'
    where fr: "first_rejection ?ps = Some (t', e')" and le: "t' \<le> t"
    by blast
  from first_rejection_member [OF fr] obtain v' where "pu v' input = (t', Inl e')"
    by auto
  moreover from fr have "fst (multiAngleCompositeFlow_body pu input) = Inl e'"
    by (simp add: multiAngleCompositeFlow_body_def Promise_all_def)
  ultimately show ?thesis using le by blast
qed

lemma multiAngle_single_rejection:
  assumes "pu v input = (t, Inl e)"
    and "\<forall>v'. v' \<noteq> v \<longrightarrow> (\<exists>x. snd (pu v' input) = Inr x)"
  shows "fst (multiAngleCompositeFlow_body pu input) = Inl e"
proof -
  from multiAngle_first_rejection [where pu = pu and v = v and input = input, OF assms(1)]
  obtain v' t' e'
    where r: "pu v' input = (t', Inl e')"
      "fst (multiAngleCompositeFlow_body pu input) = Inl e'"
    by blast
  have "v' = v"
  proof (rule ccontr)
    assume "v' \<noteq> v"
    with assms(2) obtain x where "snd (pu v' input) = Inr x" by blast
    with r(1) show False by simp
  qed
  with r assms(1) show ?thesis by simp
qed

text \<open>
  C10. The flow issues the three prompt calls, front, side and back, whatever the others
  answer, and joins them. When all three fulfil, it resolves with the three views, an
  absent view replaced by the empty string. When a call rejects, the flow rejects (no
  record of views is returned) with the reason of a call that rejected, one that settled
  no later than that call; when only one call rejects, with its reason.
\<close>

theorem multi_angle_join:
  assumes valid: "MultiAngleCompositeInputSchema raw = Some input"
  shows "snd (generateMultiAngleComposite pu raw) = [Front, Side, Back]
    \<and> (snd (pu Front input) = Inr f \<and> snd (pu Side input) = Inr s
         \<and> snd (pu Back input) = Inr b \<longrightarrow>
       fst (generateMultiAngleComposite pu raw) =
         Inr \<lparr>frontView = or_empty f, sideView = or_empty s, backView = or_empty b\<rparr>)
    \<and> (pu v input = (t, Inl e) \<longrightarrow>
       (\<exists>v' t' e'. pu v' input = (t', Inl e') \<and> t' \<le> t
          \<and> fst (generateMultiAngleComposite pu raw) = Inl e'))
    \<and> (pu v input = (t, Inl e) \<and> (\<forall>v'. v' \<noteq> v \<longrightarrow> (\<exists>x. snd (pu v' input) = Inr x)) \<longrightarrow>
       fst (generateMultiAngleComposite pu raw) = Inl e)"
  unfolding generateMultiAngleComposite_valid [OF valid]
  using multiAngle_issued multiAngle_all_fulfilled multiAngle_first_rejection
    multiAngle_single_rejection
  by (intro conjI impI) blast+

theorem multi_angle_join_witness:
  "generateMultiAngleComposite fake_views sample_ma_raw =
     (Inr \<lparr>frontView = ''data:image/png;base64,FFFF'', sideView = [],
           backView = ''data:image/png;base64,BBBB''\<rparr>, [Front, Side, Back])
   \<and> generateMultiAngleComposite fake_views_side_fails sample_ma_raw =
     (Inl (Error ''503 Service Unavailable''), [Front, Side, Back])"
proof -
  have ok: "snd (fake_views Front sample_ma_input) = Inr (Some ''data:image/png;base64,FFFF'')
      \<and> snd (fake_views Side sample_ma_input) = Inr None
      \<and> snd (fake_views Back sample_ma_input) = Inr (Some ''data:image/png;base64,BBBB'')"
    by simp
  have first: "generateMultiAngleComposite fake_views sample_ma_raw =
     (Inr \<lparr>frontView = or_empty (Some ''data:image/png;base64,FFFF''),
           sideView = or_empty None,
           backView = or_empty (Some ''data:image/png;base64,BBBB'')\<rparr>, [Front, Side, Back])"
    using multi_angle_join [OF sample_ma_raw_valid, where pu = fake_views] ok
    by (metis prod.collapse)
  have side: "fake_views_side_fails Side sample_ma_input
                = (3, Inl (Error ''503 Service Unavailable''))"
    by simp
  have others: "\<forall>v'. v' \<noteq> Side \<longrightarrow> (\<exists>x. snd (fake_views_side_fails v' sample_ma_input) = Inr x)"
  proof (intro allI impI)
    fix v' :: ViewAngle
    assume "v' \<noteq> Side"
    then show "\<exists>x. snd (fake_views_side_fails v' sample_ma_input) = Inr x"
      by (cases v') simp_all
  qed
  have second: "generateMultiAngleComposite fake_views_side_fails sample_ma_raw =
     (Inl (Error ''503 Service Unavailable''), [Front, Side, Back])"
    using multi_angle_join
      [OF sample_ma_raw_valid, where pu = fake_views_side_fails and v = Side] side others
    by (metis prod.collapse)
  from first second show ?thesis by simp
qed

end
